theory Spec2Isabelle
  imports Complex_Main "HOL-Library.Log_Nat"
begin

section \<open>Numbers\<close>

text \<open>
  The components compute with JavaScript numbers, which are doubles. Where a statement
  is about the value computed up to its last bit, the numbers are modelled as the real
  numbers they approximate. Where a statement turns on a comparison of computed values,
  the threshold of a drag on the waveform and the bounds of a knob, every arithmetic
  operation is modelled as the source runs it: the exact result, rounded to the nearest
  double by \<open>double_round\<close>. \<open>NaN\<close>, the infinities and the sign of zero are not part of
  the model. \<open>Math.round\<close> rounds to the nearest integer, a tie going up; on a double
  its result is exact.
\<close>

definition Math_round :: "real \<Rightarrow> int" where
  "Math_round x = \<lfloor>x + 1 / 2\<rfloor>"

text \<open>The power of two with a whole exponent of either sign.\<close>

definition pow2 :: "int \<Rightarrow> real" where
  "pow2 e = (if 0 \<le> e then 2 ^ nat e else 1 / 2 ^ nat (- e))"

text \<open>
  The binade of a positive number \<open>x\<close>: the exponent \<open>e\<close> with \<open>2^e \<le> x < 2^(e+1)\<close>,
  read off the bit length of the whole part of \<open>x\<close> or of \<open>1 / x\<close>.
\<close>

definition binade :: "real \<Rightarrow> int" where
  "binade x = (if 1 \<le> x then bitlen \<lfloor>x\<rfloor> - 1 else - bitlen (\<lceil>1 / x\<rceil> - 1))"

text \<open>Rounding to the nearest integer, a tie going to the even one.\<close>

definition round_half_even :: "real \<Rightarrow> int" where
  "round_half_even x =
     (let f = \<lfloor>x\<rfloor>; r = x - real_of_int f
      in if r < 1 / 2 then f else if 1 / 2 < r then f + 1 else if even f then f else f + 1)"

text \<open>
  The double nearest to a real number, a tie going to the even significand: 53 bits of
  significand in the binade of the number, and the spacing \<open>2^-1074\<close> of the subnormal
  numbers below the binade \<open>-1022\<close>. Results beyond the largest double are not cut off.
\<close>

definition double_round :: "real \<Rightarrow> real" where
  "double_round x =
     (if x = 0 then 0
      else let e = max (binade \<bar>x\<bar>) (- 1022); u = pow2 (e - 52)
           in sgn x * (real_of_int (round_half_even (\<bar>x\<bar> / u)) * u))"

section \<open>Parameter knob (knob.tsx)\<close>

record KnobProps =
  knob_min :: real
  knob_max :: real
  knob_step :: real

record KnobState =
  knob_isDragging :: bool
  startY :: real
  startX :: real
  startValue :: real

text \<open>A touch point of a touch event: \<open>clientX\<close> and \<open>clientY\<close>.\<close>

record Touch =
  clientX :: real
  clientY :: real

definition sensitivity :: real where
  "sensitivity = 200"

text \<open>
  The part both move handlers share, from the delta on: scale, clamp to the bounds,
  round to the step unless the step is zero. Here the arithmetic is exact; the handlers
  with every operation rounded to a double follow below.
\<close>

definition knob_newValue :: "KnobProps \<Rightarrow> KnobState \<Rightarrow> real \<Rightarrow> real" where
  "knob_newValue p s delta =
     (let newValue = startValue s - (delta / sensitivity) * (knob_max p - knob_min p);
          newValue = max (knob_min p) (min (knob_max p) newValue)
      in if knob_step p \<noteq> 0
         then real_of_int (Math_round (newValue / knob_step p)) * knob_step p
         else newValue)"

text \<open>
  \<open>handleMouseMove\<close> of the knob: the argument is the event's \<open>clientY\<close>, the result
  the value passed to \<open>onChange\<close>, or \<open>None\<close> when the handler returns without a call.
\<close>

definition knob_handleMouseMove :: "KnobProps \<Rightarrow> KnobState \<Rightarrow> real \<Rightarrow> real option" where
  "knob_handleMouseMove p s eClientY =
     (if \<not> knob_isDragging s then None
      else let deltaY = eClientY - startY s
           in Some (knob_newValue p s deltaY))"

text \<open>\<open>handleTouchMove\<close> of the knob: the argument is the event's \<open>touches\<close> list.\<close>

definition knob_handleTouchMove :: "KnobProps \<Rightarrow> KnobState \<Rightarrow> Touch list \<Rightarrow> real option" where
  "knob_handleTouchMove p s touches =
     (case touches of
        [] \<Rightarrow> None
      | touch # _ \<Rightarrow>
          if \<not> knob_isDragging s then None
          else let deltaY = clientY touch - startY s;
                   deltaX = clientX touch - startX s;
                   delta = (if \<bar>deltaY\<bar> > \<bar>deltaX\<bar> then deltaY else - deltaX)
               in Some (knob_newValue p s delta))"

text \<open>\<open>handleMouseDown\<close> and \<open>handleTouchStart\<close> of the knob; \<open>v\<close> is the \<open>value\<close> prop.\<close>

definition knob_handleMouseDown :: "real \<Rightarrow> KnobState \<Rightarrow> real \<Rightarrow> real \<Rightarrow> KnobState" where
  "knob_handleMouseDown v s eClientX eClientY =
     s\<lparr>knob_isDragging := True, startY := eClientY, startX := eClientX, startValue := v\<rparr>"

definition knob_handleTouchStart :: "real \<Rightarrow> KnobState \<Rightarrow> Touch list \<Rightarrow> KnobState" where
  "knob_handleTouchStart v s touches =
     (case touches of
        [] \<Rightarrow> s
      | touch # _ \<Rightarrow>
          s\<lparr>knob_isDragging := True, startY := clientY touch, startX := clientX touch,
            startValue := v\<rparr>)"

definition knob_handleMouseUp :: "KnobState \<Rightarrow> KnobState" where
  "knob_handleMouseUp s = s\<lparr>knob_isDragging := False\<rparr>"

subsection \<open>The move handlers in double precision\<close>

text \<open>
  The same handlers with every operation rounded as the source runs it: each difference,
  quotient and product is the double nearest to the exact result.
\<close>





subsection \<open>What the specification says of the knob\<close>

text \<open>The clamp of the specification's formula.\<close>

definition clamp :: "real \<Rightarrow> real \<Rightarrow> real \<Rightarrow> real" where
  "clamp x lo hi = (if x < lo then lo else if x > hi then hi else x)"

text \<open>
  \<open>m\<close> is a multiple of \<open>step\<close> nearest to \<open>v\<close>: a multiple of the step, and no
  multiple of the step is nearer to \<open>v\<close>.
\<close>

definition nearest_multiple :: "real \<Rightarrow> real \<Rightarrow> real \<Rightarrow> bool" where
  "nearest_multiple step v m \<longleftrightarrow>
     (\<exists>k::int. m = real_of_int k * step) \<and>
     (\<forall>j::int. \<bar>m - v\<bar> \<le> \<bar>real_of_int j * step - v\<bar>)"

text \<open>
  The value the specification gives a move with the delta \<open>delta\<close> from the start value
  \<open>sv\<close>: the clamped value when the step is zero, else a multiple of the step nearest
  to the clamped value.
\<close>

definition spec_knob_value :: "KnobProps \<Rightarrow> real \<Rightarrow> real \<Rightarrow> real \<Rightarrow> bool" where
  "spec_knob_value p sv delta m \<longleftrightarrow>
     (let c = clamp (sv - delta / 200 * (knob_max p - knob_min p)) (knob_min p) (knob_max p)
      in if knob_step p \<noteq> 0 then nearest_multiple (knob_step p) c m else m = c)"

section \<open>Waveform display (waveform-display.tsx)\<close>

text \<open>
  Of the decoded clip the components read the duration; the samples are kept to tell
  clips apart.
\<close>

record AudioBuffer =
  duration :: real
  channelData :: "real list"

text \<open>The canvas element behind \<open>canvasRef\<close>, with the left edge of its bounding rectangle.\<close>

record Canvas =
  rect_left :: real

record WaveformState =
  wf_isDragging :: bool
  dragStart :: "real option"
  dragEnd :: "real option"
  canvasWidth :: real

text \<open>
  \<open>getPositionFromEvent\<close>. A \<open>canvasWidth\<close> of zero makes the source divide by zero;
  the statements below that depend on the position take a width that is not zero.
\<close>

definition getPositionFromEvent ::
    "Canvas option \<Rightarrow> AudioBuffer \<Rightarrow> WaveformState \<Rightarrow> real \<Rightarrow> real" where
  "getPositionFromEvent canvasRef buf s eClientX =
     (case canvasRef of
        None \<Rightarrow> 0
      | Some canvas \<Rightarrow>
          let x = eClientX - rect_left canvas
          in (x / canvasWidth s) * duration buf)"

definition wf_handleMouseDown ::
    "Canvas option \<Rightarrow> AudioBuffer \<Rightarrow> WaveformState \<Rightarrow> real \<Rightarrow> WaveformState" where
  "wf_handleMouseDown canvasRef buf s eClientX =
     (let position = getPositionFromEvent canvasRef buf s eClientX
      in s\<lparr>wf_isDragging := True, dragStart := Some position, dragEnd := Some position\<rparr>)"

definition wf_handleMouseMove ::
    "Canvas option \<Rightarrow> AudioBuffer \<Rightarrow> WaveformState \<Rightarrow> real \<Rightarrow> WaveformState" where
  "wf_handleMouseMove canvasRef buf s eClientX =
     (if \<not> wf_isDragging s \<or> canvasRef = None \<or> dragStart s = None then s
      else let position = getPositionFromEvent canvasRef buf s eClientX
           in s\<lparr>dragEnd := Some position\<rparr>)"

text \<open>The literal \<open>0.01\<close> of the release handlers: the double nearest to 0.01.\<close>

definition commit_threshold :: real where
  "commit_threshold = double_round 0.01"

text \<open>
  \<open>handleMouseUp\<close> (also bound to \<open>onMouseLeave\<close>): the new state and the arguments of
  the call of \<open>onRegionChange\<close>, \<open>None\<close> when the handler does not call it. The
  difference of the two positions is the double the subtraction gives, and it is
  compared with the double of the literal.
\<close>

definition wf_handleMouseUp :: "WaveformState \<Rightarrow> WaveformState \<times> (real \<times> real) option" where
  "wf_handleMouseUp s =
     (s\<lparr>wf_isDragging := False\<rparr>,
      case (dragStart s, dragEnd s) of
        (Some ds, Some de) \<Rightarrow>
          if wf_isDragging s
          then let start = min ds de; end = max ds de
               in if \<bar>double_round (ds - de)\<bar> > commit_threshold
                  then Some (start, end) else None
          else None
      | _ \<Rightarrow> None)"

definition wf_handleTouchStart ::
    "Canvas option \<Rightarrow> AudioBuffer \<Rightarrow> WaveformState \<Rightarrow> Touch list \<Rightarrow> WaveformState" where
  "wf_handleTouchStart canvasRef buf s touches =
     (case touches of
        [] \<Rightarrow> s
      | touch # _ \<Rightarrow>
          let position = getPositionFromEvent canvasRef buf s (clientX touch)
          in s\<lparr>wf_isDragging := True, dragStart := Some position, dragEnd := Some position\<rparr>)"

definition wf_handleTouchMove ::
    "Canvas option \<Rightarrow> AudioBuffer \<Rightarrow> WaveformState \<Rightarrow> Touch list \<Rightarrow> WaveformState" where
  "wf_handleTouchMove canvasRef buf s touches =
     (case touches of
        [] \<Rightarrow> s
      | touch # _ \<Rightarrow>
          if \<not> wf_isDragging s \<or> canvasRef = None \<or> dragStart s = None then s
          else let position = getPositionFromEvent canvasRef buf s (clientX touch)
               in s\<lparr>dragEnd := Some position\<rparr>)"

definition wf_handleTouchEnd :: "WaveformState \<Rightarrow> WaveformState \<times> (real \<times> real) option" where
  "wf_handleTouchEnd s =
     (s\<lparr>wf_isDragging := False\<rparr>,
      case (dragStart s, dragEnd s) of
        (Some ds, Some de) \<Rightarrow>
          if wf_isDragging s
          then let start = min ds de; end = max ds de
               in if \<bar>double_round (ds - de)\<bar> > commit_threshold
                  then Some (start, end) else None
          else None
      | _ \<Rightarrow> None)"

section \<open>Track controller (audio-track.tsx)\<close>

datatype LogEntry = Error string | Warn string

text \<open>Binary data, a \<open>Blob\<close>, as its bytes; its \<open>size\<close> is their number.\<close>

type_synonym Blob = "nat list"

subsection \<open>The signal graph\<close>

text \<open>The nodes of one graph, named as the local variables of \<open>setupAudioNodes\<close> are.\<close>

datatype NodeName =
    SourceNode | GainNode | FilterNode | DelayNode | DelayGainNode
  | ReverbNode | ReverbGainNode | DryGainNode
  | ContextDestination | RecordingDestination

datatype AudioNode =
    BufferSource AudioBuffer bool
  | Gain real
  | BiquadFilter string real
  | Delay real real
  | Convolver AudioBuffer

text \<open>
  A graph: the nodes created, in the order of their creation; the connections made, in
  the order of the \<open>connect\<close> calls; the loop points of the source node and the offset
  it was started at.
\<close>

record AudioGraph =
  nodes :: "(NodeName \<times> AudioNode) list"
  connections :: "(NodeName \<times> NodeName) list"
  src_loopStart :: real
  src_loopEnd :: real
  started :: "real option"

definition create :: "NodeName \<Rightarrow> AudioNode \<Rightarrow> AudioGraph \<Rightarrow> AudioGraph" where
  "create n node g = g\<lparr>nodes := nodes g @ [(n, node)]\<rparr>"

definition connect :: "NodeName \<Rightarrow> NodeName \<Rightarrow> AudioGraph \<Rightarrow> AudioGraph" where
  "connect a b g = g\<lparr>connections := connections g @ [(a, b)]\<rparr>"

definition empty_graph :: AudioGraph where
  "empty_graph = \<lparr>nodes = [], connections = [], src_loopStart = 0, src_loopEnd = 0, started = None\<rparr>"

text \<open>The names of the nodes a graph holds, and whether a connection touches a node.\<close>

definition node_names :: "AudioGraph \<Rightarrow> NodeName list" where
  "node_names g = map fst (nodes g)"

definition touched :: "NodeName \<Rightarrow> AudioGraph \<Rightarrow> bool" where
  "touched n g \<longleftrightarrow> n \<in> set (map fst (connections g)) \<or> n \<in> set (map snd (connections g))"

text \<open>The connections of the delay branch and of the reverb branch.\<close>

definition delay_branch :: "(NodeName \<times> NodeName) list" where
  "delay_branch = [(FilterNode, DelayNode), (DelayNode, DelayGainNode), (DelayGainNode, GainNode)]"

definition reverb_branch :: "(NodeName \<times> NodeName) list" where
  "reverb_branch =
     [(FilterNode, ReverbNode), (ReverbNode, ReverbGainNode), (ReverbGainNode, GainNode)]"

text \<open>
  The dry path of a graph: the source, the filter, the track gain and the outputs, with
  their settings, and the connections among them.
\<close>

definition dry_names :: "NodeName set" where
  "dry_names = {SourceNode, FilterNode, GainNode, ContextDestination, RecordingDestination}"

definition dry_path ::
    "AudioGraph \<Rightarrow> (NodeName \<times> AudioNode) list \<times> (NodeName \<times> NodeName) list" where
  "dry_path g =
     (filter (\<lambda>n. fst n \<in> dry_names) (nodes g),
      filter (\<lambda>c. fst c \<in> dry_names \<and> snd c \<in> dry_names) (connections g))"

subsection \<open>The track\<close>

text \<open>
  The props of a track that the operations read: is there a context, a recording bus.
  The state of the context, which \<open>playAudio\<close> resumes when it is suspended, is not
  part of the track and is left out.
\<close>

record TrackProps =
  audioContext :: bool
  destinationNode :: bool

record TrackState =
  audioBuffer :: "AudioBuffer option"
  isLoading :: bool
  trackPlaying :: bool
  loopStart :: real
  loopEnd :: real
  reverbAmount :: real
  delayAmount :: real
  filterFreq :: real
  sourceNodeRef :: "AudioGraph option"
  reverbImpulseRef :: "AudioBuffer option"
  track_mediaRecorderRef :: bool
  track_recordedChunksRef :: "Blob list"
  track_isRecording :: bool
  track_console :: "LogEntry list"

definition initial_track :: TrackState where
  "initial_track =
     \<lparr>audioBuffer = None, isLoading = False, trackPlaying = False, loopStart = 0, loopEnd = 1,
      reverbAmount = 0, delayAmount = 0, filterFreq = 20000, sourceNodeRef = None,
      reverbImpulseRef = None, track_mediaRecorderRef = False, track_recordedChunksRef = [],
      track_isRecording = False, track_console = []\<rparr>"

text \<open>
  \<open>setupAudioNodes\<close>, for calls of the audio interface that do not throw: the graph it
  builds, \<open>None\<close> where it returns \<open>null\<close>. The source node of the graph before is
  disconnected and the new graph shares no node with it, so the function returns a graph
  of its own; the node refs it sets point into that graph. A gain node is created with
  gain 1.
\<close>

definition setupAudioNodes :: "TrackProps \<Rightarrow> TrackState \<Rightarrow> AudioGraph option" where
  "setupAudioNodes props st =
     (case audioBuffer st of
        None \<Rightarrow> None
      | Some buf \<Rightarrow>
          if \<not> audioContext props then None
          else
            let g = create SourceNode (BufferSource buf True) empty_graph;
                g = create GainNode (Gain 1) g;
                g = create FilterNode (BiquadFilter ''lowpass'' (filterFreq st)) g;
                g = create DelayNode (Delay 5.0 (delayAmount st)) g;
                g = create DelayGainNode (Gain (if delayAmount st > 0 then 0.5 else 0)) g;
                reverbNode = (case reverbImpulseRef st of
                                Some impulse \<Rightarrow>
                                  if reverbAmount st > 0 then Some (Convolver impulse) else None
                              | None \<Rightarrow> None);
                g = (case reverbNode of Some node \<Rightarrow> create ReverbNode node g | None \<Rightarrow> g);
                g = create ReverbGainNode (Gain (reverbAmount st)) g;
                g = create DryGainNode (Gain (1 - max (reverbAmount st) 0)) g;
                g = connect SourceNode FilterNode g;
                g = connect FilterNode GainNode g;
                g = (if delayAmount st > 0
                     then connect DelayGainNode GainNode
                            (connect DelayNode DelayGainNode (connect FilterNode DelayNode g))
                     else g);
                g = (if reverbNode \<noteq> None \<and> reverbAmount st > 0
                     then connect ReverbGainNode GainNode
                            (connect ReverbNode ReverbGainNode (connect FilterNode ReverbNode g))
                     else g);
                g = connect GainNode ContextDestination g;
                g = (if destinationNode props then connect GainNode RecordingDestination g else g)
            in Some g)"

definition stopAudio :: "TrackState \<Rightarrow> TrackState" where
  "stopAudio st = st\<lparr>sourceNodeRef := None, trackPlaying := False\<rparr>"

definition playAudio :: "TrackProps \<Rightarrow> TrackState \<Rightarrow> TrackState" where
  "playAudio props st =
     (if \<not> audioContext props \<or> audioBuffer st = None then st
      else
        let st1 = stopAudio st
        in case setupAudioNodes props st of
             None \<Rightarrow> st1
           | Some sourceNode \<Rightarrow>
               st1\<lparr>sourceNodeRef :=
                     Some (sourceNode\<lparr>src_loopStart := loopStart st, src_loopEnd := loopEnd st,
                                      started := Some (loopStart st)\<rparr>),
                   trackPlaying := True\<rparr>)"

text \<open>
  \<open>handleLoopRegionChange\<close>. The two state setters take effect with the next render;
  the \<open>playAudio\<close> the handler calls still reads the loop points of the render it was
  created in.
\<close>

definition handleLoopRegionChange :: "TrackProps \<Rightarrow> TrackState \<Rightarrow> real \<Rightarrow> real \<Rightarrow> TrackState" where
  "handleLoopRegionChange props st start end =
     (let played = (if trackPlaying st \<and> sourceNodeRef st \<noteq> None then playAudio props st else st)
      in played\<lparr>loopStart := start, loopEnd := end\<rparr>)"

subsection \<open>Loading and recording a clip\<close>

text \<open>What \<open>decodeAudioData\<close> comes back with: a decoded buffer, or a rejection.\<close>

datatype DecodeResult = Decoded AudioBuffer | DecodeError

text \<open>
  \<open>handleFileUpload\<close> up to the start of the read; \<open>file\<close> is the first selected file.
  The read ends in \<open>reader.onload\<close> or in \<open>reader.onerror\<close>.
\<close>

definition handleFileUpload :: "TrackProps \<Rightarrow> TrackState \<Rightarrow> Blob option \<Rightarrow> TrackState" where
  "handleFileUpload props st file =
     (if file = None \<or> \<not> audioContext props then st else st\<lparr>isLoading := True\<rparr>)"

definition reader_onload :: "TrackState \<Rightarrow> DecodeResult \<Rightarrow> TrackState" where
  "reader_onload st r =
     (let st = (case r of
                  Decoded decodedBuffer \<Rightarrow>
                    st\<lparr>audioBuffer := Some decodedBuffer, loopEnd := duration decodedBuffer\<rparr>
                | DecodeError \<Rightarrow>
                    st\<lparr>track_console := track_console st @ [Error ''Error decoding audio data:'']\<rparr>)
      in st\<lparr>isLoading := False\<rparr>)"

definition reader_onerror :: "TrackState \<Rightarrow> TrackState" where
  "reader_onerror st =
     st\<lparr>track_console := track_console st @ [Error ''Error reading file''], isLoading := False\<rparr>"

text \<open>\<open>startRecording\<close> of the track; \<open>granted\<close>: \<open>getUserMedia\<close> gave a stream.\<close>

definition track_startRecording :: "TrackProps \<Rightarrow> TrackState \<Rightarrow> bool \<Rightarrow> TrackState" where
  "track_startRecording props st granted =
     (if \<not> audioContext props then st
      else if granted
      then st\<lparr>track_mediaRecorderRef := True, track_recordedChunksRef := [],
              track_isRecording := True\<rparr>
      else st\<lparr>track_console := track_console st @ [Error ''Error starting recording:'']\<rparr>)"

definition track_ondataavailable :: "TrackState \<Rightarrow> Blob \<Rightarrow> TrackState" where
  "track_ondataavailable st eData =
     (if length eData > 0
      then st\<lparr>track_recordedChunksRef := track_recordedChunksRef st @ [eData]\<rparr>
      else st)"

text \<open>\<open>mediaRecorder.onstop\<close> of the track; \<open>r\<close> is the outcome of decoding the blob.\<close>

definition track_onstop :: "TrackState \<Rightarrow> DecodeResult \<Rightarrow> TrackState" where
  "track_onstop st r =
     (if length (track_recordedChunksRef st) = 0
      then st\<lparr>track_console := track_console st @ [Warn ''No data recorded'']\<rparr>
      else case r of
             Decoded decodedBuffer \<Rightarrow>
               st\<lparr>audioBuffer := Some decodedBuffer, loopEnd := duration decodedBuffer\<rparr>
           | DecodeError \<Rightarrow>
               st\<lparr>track_console := track_console st @ [Error ''Error decoding recorded audio:'']\<rparr>)"

text \<open>\<open>stopRecording\<close> of the track; \<open>stopThrows\<close>: the recorder's \<open>stop\<close> throws.\<close>

definition track_stopRecording :: "TrackState \<Rightarrow> bool \<Rightarrow> TrackState" where
  "track_stopRecording st stopThrows =
     (if track_mediaRecorderRef st \<and> track_isRecording st
      then let st = (if stopThrows
                     then st\<lparr>track_console := track_console st @ [Error ''Error stopping recording:'']\<rparr>
                     else st)
           in st\<lparr>track_isRecording := False\<rparr>
      else st)"

text \<open>The loop region of a track, and the region the specification requires of a clip.\<close>

definition region :: "TrackState \<Rightarrow> real \<times> real" where
  "region st = (loopStart st, loopEnd st)"

definition valid_region :: "AudioBuffer \<Rightarrow> real \<times> real \<Rightarrow> bool" where
  "valid_region clip r \<longleftrightarrow> 0 \<le> fst r \<and> fst r < snd r \<and> snd r \<le> duration clip"

section \<open>Looper session (audio-looper.tsx)\<close>

record Track =
  track_id :: int
  track_audioBuffer :: "AudioBuffer option"

datatype ContextState = Suspended | Running

record LooperState =
  tracks :: "Track list"
  masterTempo :: real
  isPlaying :: bool
  isRecording :: bool
  recordingTime :: nat
  recordedBlob :: "Blob option"
  audioContextRef :: "ContextState option"
  mediaRecorderRef :: bool
  recordedChunksRef :: "Blob list"
  recordingTimerRef :: bool
  destinationRef :: bool
  console :: "LogEntry list"

definition initial_looper :: LooperState where
  "initial_looper =
     \<lparr>tracks = [\<lparr>track_id = 1, track_audioBuffer = None\<rparr>], masterTempo = 120,
      isPlaying = False, isRecording = False, recordingTime = 0, recordedBlob = None,
      audioContextRef = None, mediaRecorderRef = False, recordedChunksRef = [],
      recordingTimerRef = False, destinationRef = False, console = []\<rparr>"

text \<open>\<open>addTrack\<close>; \<open>now\<close> is the value of \<open>Date.now()\<close>, the new track's id.\<close>

definition addTrack :: "LooperState \<Rightarrow> int \<Rightarrow> LooperState" where
  "addTrack st now =
     (if length (tracks st) < 16
      then st\<lparr>tracks := tracks st @ [\<lparr>track_id = now, track_audioBuffer = None\<rparr>]\<rparr>
      else st)"

text \<open>A run of add requests, one after the other.\<close>

definition addTracks :: "LooperState \<Rightarrow> int list \<Rightarrow> LooperState" where
  "addTracks st nows = foldl addTrack st nows"

text \<open>
  What creating and starting the \<open>MediaRecorder\<close> does: both succeed, the constructor
  throws, or \<open>start\<close> throws.
\<close>

datatype RecorderOutcome = RecorderStarted | ConstructorThrows | StartThrows

text \<open>
  \<open>startMasterRecording\<close>. A suspended context is resumed; the resume is taken to
  succeed.
\<close>

definition startMasterRecording :: "LooperState \<Rightarrow> RecorderOutcome \<Rightarrow> LooperState" where
  "startMasterRecording st outcome =
     (if audioContextRef st = None \<or> \<not> destinationRef st \<or> isRecording st then st
      else
        let st = (if audioContextRef st = Some Suspended
                  then st\<lparr>audioContextRef := Some Running\<rparr> else st);
            st = st\<lparr>recordedChunksRef := [], recordingTime := 0, recordedBlob := None\<rparr>
        in case outcome of
             ConstructorThrows \<Rightarrow>
               st\<lparr>console := console st @ [Error ''Error starting master recording:'']\<rparr>
           | StartThrows \<Rightarrow>
               st\<lparr>mediaRecorderRef := True,
                  console := console st @ [Error ''Error starting master recording:'']\<rparr>
           | RecorderStarted \<Rightarrow>
               st\<lparr>mediaRecorderRef := True, isRecording := True, isPlaying := True,
                  recordingTimerRef := True\<rparr>)"

definition ondataavailable :: "LooperState \<Rightarrow> Blob \<Rightarrow> LooperState" where
  "ondataavailable st eData =
     (if length eData > 0
      then st\<lparr>recordedChunksRef := recordedChunksRef st @ [eData]\<rparr>
      else st)"

text \<open>\<open>mediaRecorder.onstop\<close> of the master recorder; the blob is the chunks in order.\<close>

definition onstop :: "LooperState \<Rightarrow> LooperState" where
  "onstop st =
     (if length (recordedChunksRef st) = 0
      then st\<lparr>console := console st @ [Warn ''No data recorded'']\<rparr>
      else st\<lparr>recordedBlob := Some (concat (recordedChunksRef st)), recordingTimerRef := False\<rparr>)"

text \<open>\<open>stopMasterRecording\<close>; \<open>stopThrows\<close>: the recorder's \<open>stop\<close> throws.\<close>

definition stopMasterRecording :: "LooperState \<Rightarrow> bool \<Rightarrow> LooperState" where
  "stopMasterRecording st stopThrows =
     (if \<not> mediaRecorderRef st \<or> \<not> isRecording st then st
      else if stopThrows
      then st\<lparr>console := console st @ [Error ''Error stopping master recording:''],
              isRecording := False\<rparr>
      else st\<lparr>isRecording := False, recordingTimerRef := False\<rparr>)"

section \<open>Rounding to the nearest double\<close>

lemma pow2_powr: "pow2 e = 2 powr (real_of_int e)"
proof (cases "0 \<le> e")
  case True
  then show ?thesis
    by (simp add: pow2_def flip: powr_realpow)
next
  case False
  then have "2 powr (real_of_int e) = 2 powr (- real (nat (- e)))" by simp
  also have "\<dots> = 1 / 2 ^ nat (- e)"
    by (simp only: powr_minus powr_realpow [of 2, OF zero_less_numeral] inverse_eq_divide)
  finally show ?thesis using False by (simp add: pow2_def)
qed

lemma pow2_pos: "0 < pow2 e"
  by (simp add: pow2_powr)

lemma pow2_mono: "a \<le> b \<Longrightarrow> pow2 a \<le> pow2 b"
  by (simp add: pow2_powr)

lemma pow2_add: "pow2 (a + b) = pow2 a * pow2 b"
  by (simp add: pow2_powr powr_add)

lemma binade_bounds:
  assumes "0 < x"
  shows "pow2 (binade x) \<le> x" and "x < pow2 (binade x + 1)"
proof -
  show "pow2 (binade x) \<le> x"
  proof (cases "1 \<le> x")
    case True
    then have m: "0 < \<lfloor>x\<rfloor>" by linarith
    from bitlen_bounds [OF m] have "2 ^ nat (bitlen \<lfloor>x\<rfloor> - 1) \<le> \<lfloor>x\<rfloor>" by blast
    then have "real_of_int (2 ^ nat (bitlen \<lfloor>x\<rfloor> - 1)) \<le> real_of_int \<lfloor>x\<rfloor>"
      by (simp only: of_int_le_iff)
    also have "\<dots> \<le> x" by (rule of_int_floor_le)
    finally have "(2::real) ^ nat (bitlen \<lfloor>x\<rfloor> - 1) \<le> x" by simp
    moreover have "0 \<le> bitlen \<lfloor>x\<rfloor> - 1" using m by (simp add: bitlen_alt_def)
    ultimately show ?thesis using True by (simp add: binade_def pow2_def)
  next
    case False
    with assms have y: "1 < 1 / x" by simp
    then have m: "0 < \<lceil>1 / x\<rceil> - 1" by linarith
    let ?n = "bitlen (\<lceil>1 / x\<rceil> - 1)"
    from bitlen_bounds [OF m] have "\<lceil>1 / x\<rceil> - 1 < 2 ^ nat ?n" by blast
    then have "\<lceil>1 / x\<rceil> \<le> 2 ^ nat ?n" by linarith
    then have "real_of_int \<lceil>1 / x\<rceil> \<le> real_of_int (2 ^ nat ?n)"
      by (simp only: of_int_le_iff)
    moreover have "1 / x \<le> real_of_int \<lceil>1 / x\<rceil>" by (rule le_of_int_ceiling)
    ultimately have "1 / x \<le> real_of_int (2 ^ nat ?n)" by (rule order_trans [rotated])
    then have "1 / x \<le> 2 ^ nat ?n" by simp
    then have "1 / 2 ^ nat ?n \<le> x" using assms by (simp add: field_simps)
    moreover have "0 < ?n" using m by (simp add: bitlen_alt_def)
    ultimately show ?thesis using False by (simp add: binade_def pow2_def)
  qed
  show "x < pow2 (binade x + 1)"
  proof (cases "1 \<le> x")
    case True
    then have m: "0 < \<lfloor>x\<rfloor>" by linarith
    from bitlen_bounds [OF m] have "\<lfloor>x\<rfloor> < 2 ^ nat (bitlen \<lfloor>x\<rfloor>)" by blast
    then have "\<lfloor>x\<rfloor> + 1 \<le> 2 ^ nat (bitlen \<lfloor>x\<rfloor>)" by linarith
    then have "real_of_int (\<lfloor>x\<rfloor> + 1) \<le> real_of_int (2 ^ nat (bitlen \<lfloor>x\<rfloor>))"
      by (simp only: of_int_le_iff)
    moreover have "x < real_of_int (\<lfloor>x\<rfloor> + 1)" by linarith
    ultimately have "x < real_of_int (2 ^ nat (bitlen \<lfloor>x\<rfloor>))" by (rule less_le_trans [rotated])
    then have "x < 2 ^ nat (bitlen \<lfloor>x\<rfloor>)" by simp
    moreover have "0 \<le> bitlen \<lfloor>x\<rfloor>" by (rule bitlen_nonneg)
    ultimately show ?thesis using True by (simp add: binade_def pow2_def)
  next
    case False
    with assms have y: "1 < 1 / x" by simp
    then have m: "0 < \<lceil>1 / x\<rceil> - 1" by linarith
    let ?n = "bitlen (\<lceil>1 / x\<rceil> - 1)"
    have n: "0 < ?n" using m by (simp add: bitlen_alt_def)
    from bitlen_bounds [OF m] have "2 ^ nat (?n - 1) \<le> \<lceil>1 / x\<rceil> - 1" by blast
    then have "real_of_int (2 ^ nat (?n - 1)) \<le> real_of_int (\<lceil>1 / x\<rceil> - 1)"
      by (simp only: of_int_le_iff)
    moreover have "real_of_int (\<lceil>1 / x\<rceil> - 1) < 1 / x" by linarith
    ultimately have "real_of_int (2 ^ nat (?n - 1)) < 1 / x" by (rule le_less_trans)
    then have "2 ^ nat (?n - 1) < 1 / x" by simp
    then have "x < 1 / 2 ^ nat (?n - 1)" using assms by (simp add: field_simps)
    moreover have "pow2 (1 - ?n) = 1 / 2 ^ nat (?n - 1)"
      using n by (cases "?n = 1") (simp_all add: pow2_def)
    ultimately show ?thesis using False by (simp add: binade_def)
  qed
qed

lemma binade_mono:
  assumes "0 < x" and "x \<le> y"
  shows "binade x \<le> binade y"
proof (rule ccontr)
  assume "\<not> binade x \<le> binade y"
  then have "binade y + 1 \<le> binade x" by simp
  then have "pow2 (binade y + 1) \<le> pow2 (binade x)" by (rule pow2_mono)
  also have "\<dots> \<le> x" using assms(1) by (rule binade_bounds)
  finally have "pow2 (binade y + 1) \<le> y" using assms(2) by simp
  moreover have "y < pow2 (binade y + 1)" using assms by (intro binade_bounds) simp
  ultimately show False by simp
qed

lemma round_half_even_cases:
  "round_half_even x = \<lfloor>x\<rfloor> \<and> x - real_of_int \<lfloor>x\<rfloor> \<le> 1 / 2 \<or>
   round_half_even x = \<lfloor>x\<rfloor> + 1 \<and> 1 / 2 \<le> x - real_of_int \<lfloor>x\<rfloor>"
  by (simp add: round_half_even_def Let_def)

lemma round_half_even_of_int: "round_half_even (real_of_int k) = k"
  by (simp add: round_half_even_def)

lemma round_half_even_mono:
  assumes "x \<le> y"
  shows "round_half_even x \<le> round_half_even y"
proof (cases "\<lfloor>x\<rfloor> = \<lfloor>y\<rfloor>")
  case True
  show ?thesis
  proof (cases "x = y")
    case True
    then show ?thesis by simp
  next
    case False
    with assms have "x - real_of_int \<lfloor>x\<rfloor> < y - real_of_int \<lfloor>y\<rfloor>"
      using \<open>\<lfloor>x\<rfloor> = \<lfloor>y\<rfloor>\<close> by simp
    then show ?thesis
      using \<open>\<lfloor>x\<rfloor> = \<lfloor>y\<rfloor>\<close> by (auto simp: round_half_even_def Let_def)
  qed
next
  case False
  with assms have "\<lfloor>x\<rfloor> + 1 \<le> \<lfloor>y\<rfloor>"
    using floor_mono [OF assms] by linarith
  moreover have "round_half_even x \<le> \<lfloor>x\<rfloor> + 1"
    using round_half_even_cases [of x] by linarith
  moreover have "\<lfloor>y\<rfloor> \<le> round_half_even y"
    using round_half_even_cases [of y] by linarith
  ultimately show ?thesis by linarith
qed


lemma double_round_pos:
  "0 < x \<Longrightarrow> double_round x =
     real_of_int (round_half_even (x / pow2 (max (binade x) (- 1022) - 52)))
       * pow2 (max (binade x) (- 1022) - 52)"
  by (simp add: double_round_def Let_def)

lemma double_round_minus: "double_round (- x) = - double_round x"
  by (simp add: double_round_def Let_def)

lemma double_round_nonneg: "0 \<le> x \<Longrightarrow> 0 \<le> double_round x"
proof (cases "x = 0")
  case True
  then show ?thesis by (simp add: double_round_def)
next
  case False
  assume "0 \<le> x"
  with False have x: "0 < x" by simp
  let ?u = "pow2 (max (binade x) (- 1022) - 52)"
  have "0 \<le> x / ?u" using x pow2_pos [of "max (binade x) (- 1022) - 52"] by simp
  then have "round_half_even (real_of_int 0) \<le> round_half_even (x / ?u)"
    by (intro round_half_even_mono) simp
  then have "0 \<le> round_half_even (x / ?u)" by (simp only: round_half_even_of_int)
  then show ?thesis
    using pow2_pos [of "max (binade x) (- 1022) - 52"]
    by (simp add: double_round_pos [OF x])
qed

lemma double_round_abs: "\<bar>double_round x\<bar> = double_round \<bar>x\<bar>"
proof (cases "0 \<le> x")
  case True
  then show ?thesis using double_round_nonneg [of x] by simp
next
  case False
  then have "0 \<le> - x" by simp
  from double_round_nonneg [OF this] False show ?thesis
    by (simp add: double_round_minus)
qed

lemma double_round_upper:
  assumes "0 < x"
  shows "double_round x \<le> pow2 (max (binade x) (- 1022) + 1)"
proof -
  let ?e = "max (binade x) (- 1022)"
  let ?u = "pow2 (?e - 52)"
  have u: "0 < ?u" by (rule pow2_pos)
  have "?e + 1 = 53 + (?e - 52)" by linarith
  then have "pow2 (?e + 1) = pow2 (53 + (?e - 52))" by (rule arg_cong)
  also have "\<dots> = pow2 53 * ?u" by (rule pow2_add)
  also have "pow2 53 = 2 ^ 53" by (simp add: pow2_def)
  finally have split: "pow2 (?e + 1) = 2 ^ 53 * ?u" .
  have "x < pow2 (binade x + 1)" using assms by (rule binade_bounds)
  also have "\<dots> \<le> pow2 (?e + 1)" by (rule pow2_mono) simp
  finally have "x < 2 ^ 53 * ?u" by (simp only: split)
  then have "x / ?u \<le> 2 ^ 53" using u by (simp add: pos_divide_le_eq)
  then have "x / ?u \<le> real_of_int (2 ^ 53)" by simp
  then have "round_half_even (x / ?u) \<le> round_half_even (real_of_int (2 ^ 53))"
    by (rule round_half_even_mono)
  then have "round_half_even (x / ?u) \<le> 2 ^ 53" by (simp only: round_half_even_of_int)
  then have "real_of_int (round_half_even (x / ?u)) \<le> real_of_int (2 ^ 53)"
    by (simp only: of_int_le_iff)
  then have "real_of_int (round_half_even (x / ?u)) * ?u \<le> real_of_int (2 ^ 53) * ?u"
    using u by (simp only: mult_le_cancel_right_pos)
  then show ?thesis by (simp add: double_round_pos [OF assms] split)
qed

lemma double_round_lower:
  assumes "0 < x" and "- 1022 \<le> binade x"
  shows "pow2 (binade x) \<le> double_round x"
proof -
  let ?e = "max (binade x) (- 1022)"
  let ?u = "pow2 (?e - 52)"
  have e: "?e = binade x" using assms(2) by simp
  have u: "0 < ?u" by (rule pow2_pos)
  have "?e = 52 + (?e - 52)" by linarith
  then have "pow2 ?e = pow2 (52 + (?e - 52))" by (rule arg_cong)
  also have "\<dots> = pow2 52 * ?u" by (rule pow2_add)
  also have "pow2 52 = 2 ^ 52" by (simp add: pow2_def)
  finally have split: "pow2 ?e = 2 ^ 52 * ?u" .
  have "pow2 (binade x) \<le> x" using assms(1) by (rule binade_bounds)
  then have "pow2 ?e \<le> x" by (simp only: e)
  then have "2 ^ 52 * ?u \<le> x" by (simp only: split)
  then have "2 ^ 52 \<le> x / ?u" using u by (simp add: pos_le_divide_eq)
  then have "real_of_int (2 ^ 52) \<le> x / ?u" by simp
  then have "round_half_even (real_of_int (2 ^ 52)) \<le> round_half_even (x / ?u)"
    by (rule round_half_even_mono)
  then have "2 ^ 52 \<le> round_half_even (x / ?u)" by (simp only: round_half_even_of_int)
  then have "real_of_int (2 ^ 52) \<le> real_of_int (round_half_even (x / ?u))"
    by (simp only: of_int_le_iff)
  then have "real_of_int (2 ^ 52) * ?u \<le> real_of_int (round_half_even (x / ?u)) * ?u"
    using u by (simp only: mult_le_cancel_right_pos)
  then have "pow2 ?e \<le> double_round x" by (simp add: double_round_pos [OF assms(1)] split)
  then show ?thesis by (simp only: e)
qed

lemma double_round_mono_pos:
  assumes "0 < x" and "x \<le> y"
  shows "double_round x \<le> double_round y"
proof -
  from assms have y: "0 < y" by simp
  let ?ex = "max (binade x) (- 1022)" and ?ey = "max (binade y) (- 1022)"
  have le: "?ex \<le> ?ey" using binade_mono [OF assms] by simp
  show ?thesis
  proof (cases "?ex = ?ey")
    case True
    let ?u = "pow2 (?ey - 52)"
    have u: "0 < ?u" by (rule pow2_pos)
    have "x / ?u \<le> y / ?u" using assms(2) u by (simp add: divide_right_mono)
    then have "round_half_even (x / ?u) \<le> round_half_even (y / ?u)"
      by (rule round_half_even_mono)
    then have "real_of_int (round_half_even (x / ?u)) * ?u
        \<le> real_of_int (round_half_even (y / ?u)) * ?u"
      using u by (simp only: mult_le_cancel_right_pos of_int_le_iff)
    then show ?thesis
      by (simp only: double_round_pos [OF assms(1)] double_round_pos [OF y] True)
  next
    case False
    with le have lt: "?ex + 1 \<le> ?ey" by simp
    then have lowy: "- 1022 \<le> binade y" and ey: "?ey = binade y" by simp_all
    have "double_round x \<le> pow2 (?ex + 1)" using assms(1) by (rule double_round_upper)
    also have "\<dots> \<le> pow2 ?ey" using lt by (rule pow2_mono)
    also have "\<dots> = pow2 (binade y)" by (simp only: ey)
    also have "\<dots> \<le> double_round y" using y lowy by (rule double_round_lower)
    finally show ?thesis .
  qed
qed

lemma double_round_mono:
  assumes "x \<le> y"
  shows "double_round x \<le> double_round y"
proof -
  consider "0 < x" | "x \<le> 0" "0 \<le> y" | "y < 0" by linarith
  then show ?thesis
  proof cases
    case 1
    then show ?thesis using assms by (rule double_round_mono_pos)
  next
    case 2
    then have "0 \<le> - x" by simp
    from double_round_nonneg [OF this] have "double_round x \<le> 0"
      by (simp add: double_round_minus)
    also have "0 \<le> double_round y" using 2(2) by (rule double_round_nonneg)
    finally show ?thesis .
  next
    case 3
    then have "0 < - y" "- y \<le> - x" using assms by simp_all
    from double_round_mono_pos [OF this] show ?thesis
      by (simp add: double_round_minus)
  qed
qed

section \<open>Rounding to the step\<close>

lemma Math_round_near: "\<bar>real_of_int (Math_round x) - x\<bar> \<le> 1 / 2"
  unfolding Math_round_def by linarith

lemma Math_round_nearest: "\<bar>real_of_int (Math_round x) - x\<bar> \<le> \<bar>real_of_int j - x\<bar>"
proof (cases "j = Math_round x")
  case True
  then show ?thesis by simp
next
  case False
  then have "j \<le> Math_round x - 1 \<or> Math_round x + 1 \<le> j" by linarith
  then have "1 / 2 \<le> \<bar>real_of_int j - x\<bar>"
    unfolding Math_round_def by linarith
  with Math_round_near [of x] show ?thesis by linarith
qed


lemma Math_round_of_int: "Math_round (real_of_int k) = k"
  unfolding Math_round_def by linarith

lemma scaled_dist: "step \<noteq> 0 \<Longrightarrow> \<bar>real_of_int k * step - v\<bar> = \<bar>step\<bar> * \<bar>real_of_int k - v / step\<bar>"
proof -
  assume s: "step \<noteq> 0"
  have "real_of_int k * step - v = step * (real_of_int k - v / step)"
    using s by (simp add: field_simps)
  then show ?thesis by (simp add: abs_mult)
qed

lemma round_nearest_multiple:
  assumes "step \<noteq> 0"
  shows "nearest_multiple step v (real_of_int (Math_round (v / step)) * step)"
  unfolding nearest_multiple_def
proof (intro conjI allI)
  show "\<exists>k. real_of_int (Math_round (v / step)) * step = real_of_int k * step" by blast
next
  fix j :: int
  have "\<bar>step\<bar> * \<bar>real_of_int (Math_round (v / step)) - v / step\<bar>
        \<le> \<bar>step\<bar> * \<bar>real_of_int j - v / step\<bar>"
    by (rule mult_left_mono [OF Math_round_nearest]) simp
  then show "\<bar>real_of_int (Math_round (v / step)) * step - v\<bar> \<le> \<bar>real_of_int j * step - v\<bar>"
    by (simp only: scaled_dist [OF assms])
qed

lemma clamp_eq: "lo \<le> hi \<Longrightarrow> max lo (min hi x) = clamp x lo hi"
  by (simp add: clamp_def max_def min_def)

lemma knob_newValue_spec:
  "knob_min p \<le> knob_max p \<Longrightarrow> spec_knob_value p (startValue s) delta (knob_newValue p s delta)"
  by (simp add: spec_knob_value_def knob_newValue_def sensitivity_def Let_def clamp_eq
      round_nearest_multiple)

lemma knob_newValue_eq:
  assumes "knob_step p \<noteq> 0"
    and eq: "startValue s - delta / 200 * (knob_max p - knob_min p) = x"
  shows "knob_newValue p s delta =
     real_of_int (Math_round (max (knob_min p) (min (knob_max p) x) / knob_step p)) * knob_step p"
  unfolding knob_newValue_def sensitivity_def Let_def eq using assms(1) by simp

section \<open>The threshold of a drag\<close>

lemma commit_threshold_value: "commit_threshold = 5764607523034235 / 576460752303423488"
  unfolding commit_threshold_def by code_simp

lemma commit_threshold_fixed: "double_round commit_threshold = commit_threshold"
  unfolding commit_threshold_def by code_simp

lemma commit_threshold_next:
  "double_round (commit_threshold + pow2 (- 59)) = commit_threshold + pow2 (- 59)"
  unfolding commit_threshold_def by code_simp

lemma commit_threshold_above: "1 / 100 < commit_threshold"
  by (simp add: commit_threshold_value)

lemma commit_threshold_literal: "double_round (1 / 100) = commit_threshold"
  unfolding commit_threshold_def by simp

text \<open>The computed distance exceeds the threshold only if the exact distance does.\<close>

lemma computed_above_threshold:
  assumes "\<bar>double_round (x - y)\<bar> > commit_threshold"
  shows "\<bar>x - y\<bar> > commit_threshold"
proof (rule ccontr)
  assume "\<not> \<bar>x - y\<bar> > commit_threshold"
  then have "\<bar>x - y\<bar> \<le> commit_threshold" by simp
  then have "double_round \<bar>x - y\<bar> \<le> double_round commit_threshold"
    by (rule double_round_mono)
  then have "\<bar>double_round (x - y)\<bar> \<le> commit_threshold"
    by (simp only: double_round_abs commit_threshold_fixed)
  with assms show False by simp
qed

lemma commit_gap:
  assumes "\<bar>double_round (x - y)\<bar> > commit_threshold"
  shows "min x y + 0.01 < max x y"
proof -
  from computed_above_threshold [OF assms] commit_threshold_above
  have "\<bar>x - y\<bar> > 1 / 100" by linarith
  then show ?thesis by (simp add: min_def max_def abs_if split: if_splits)
qed

lemma exact_below_threshold:
  assumes "\<bar>x - y\<bar> \<le> 0.01"
  shows "\<bar>double_round (x - y)\<bar> \<le> commit_threshold"
proof -
  from assms have "\<bar>x - y\<bar> \<le> 1 / 100" by simp
  then have "double_round \<bar>x - y\<bar> \<le> double_round (1 / 100)"
    by (rule double_round_mono)
  then show ?thesis by (simp only: double_round_abs commit_threshold_literal)
qed

lemma exact_above_threshold:
  assumes "commit_threshold + pow2 (- 59) \<le> \<bar>x - y\<bar>"
  shows "\<bar>double_round (x - y)\<bar> > commit_threshold"
proof -
  from assms have "double_round (commit_threshold + pow2 (- 59)) \<le> double_round \<bar>x - y\<bar>"
    by (rule double_round_mono)
  then have "commit_threshold + pow2 (- 59) \<le> \<bar>double_round (x - y)\<bar>"
    by (simp only: double_round_abs commit_threshold_next)
  moreover have "0 < pow2 (- 59)" by (rule pow2_pos)
  ultimately show ?thesis by linarith
qed

lemma double_round_2: "double_round 2 = 2"
  by code_simp

lemma double_round_m4: "double_round (- 4) = - 4"
  by code_simp

section \<open>Rounding to the step in double precision\<close>



section \<open>The shape of a rebuilt graph\<close>

lemma setupAudioNodes_closed:
  assumes "audioBuffer st = Some buf" and "audioContext props"
  shows "setupAudioNodes props st = Some
     \<lparr>nodes =
        [(SourceNode, BufferSource buf True), (GainNode, Gain 1),
         (FilterNode, BiquadFilter ''lowpass'' (filterFreq st)),
         (DelayNode, Delay 5 (delayAmount st)),
         (DelayGainNode, Gain (if delayAmount st > 0 then 0.5 else 0))]
        @ (if reverbImpulseRef st \<noteq> None \<and> reverbAmount st > 0
           then [(ReverbNode, Convolver (the (reverbImpulseRef st)))] else [])
        @ [(ReverbGainNode, Gain (reverbAmount st)),
           (DryGainNode, Gain (1 - max (reverbAmount st) 0))],
      connections =
        [(SourceNode, FilterNode), (FilterNode, GainNode)]
        @ (if delayAmount st > 0 then delay_branch else [])
        @ (if reverbImpulseRef st \<noteq> None \<and> reverbAmount st > 0 then reverb_branch else [])
        @ [(GainNode, ContextDestination)]
        @ (if destinationNode props then [(GainNode, RecordingDestination)] else []),
      src_loopStart = 0, src_loopEnd = 0, started = None\<rparr>"
  using assms
  by (cases "reverbImpulseRef st"; cases "delayAmount st > 0"; cases "reverbAmount st > 0";
      cases "destinationNode props")
    (simp_all add: setupAudioNodes_def create_def connect_def empty_graph_def Let_def
      delay_branch_def reverb_branch_def)

lemma setupAudioNodes_SomeD:
  "setupAudioNodes props st = Some g \<Longrightarrow> (\<exists>buf. audioBuffer st = Some buf) \<and> audioContext props"
  by (cases "audioBuffer st"; cases "audioContext props") (simp_all add: setupAudioNodes_def)


lemma setupAudioNodes_shape:
  assumes "setupAudioNodes props st = Some g"
  shows "nodes g =
        [(SourceNode, BufferSource (the (audioBuffer st)) True), (GainNode, Gain 1),
         (FilterNode, BiquadFilter ''lowpass'' (filterFreq st)),
         (DelayNode, Delay 5 (delayAmount st)),
         (DelayGainNode, Gain (if delayAmount st > 0 then 0.5 else 0))]
        @ (if reverbImpulseRef st \<noteq> None \<and> reverbAmount st > 0
           then [(ReverbNode, Convolver (the (reverbImpulseRef st)))] else [])
        @ [(ReverbGainNode, Gain (reverbAmount st)),
           (DryGainNode, Gain (1 - max (reverbAmount st) 0))]"
    and "connections g =
        [(SourceNode, FilterNode), (FilterNode, GainNode)]
        @ (if delayAmount st > 0 then delay_branch else [])
        @ (if reverbImpulseRef st \<noteq> None \<and> reverbAmount st > 0 then reverb_branch else [])
        @ [(GainNode, ContextDestination)]
        @ (if destinationNode props then [(GainNode, RecordingDestination)] else [])"
proof -
  from setupAudioNodes_SomeD [OF assms] obtain buf
    where buf: "audioBuffer st = Some buf" and ctx: "audioContext props" by blast
  note closed = setupAudioNodes_closed [OF buf ctx]
  from assms closed have g: "g = the (setupAudioNodes props st)" by simp
  show "nodes g =
        [(SourceNode, BufferSource (the (audioBuffer st)) True), (GainNode, Gain 1),
         (FilterNode, BiquadFilter ''lowpass'' (filterFreq st)),
         (DelayNode, Delay 5 (delayAmount st)),
         (DelayGainNode, Gain (if delayAmount st > 0 then 0.5 else 0))]
        @ (if reverbImpulseRef st \<noteq> None \<and> reverbAmount st > 0
           then [(ReverbNode, Convolver (the (reverbImpulseRef st)))] else [])
        @ [(ReverbGainNode, Gain (reverbAmount st)),
           (DryGainNode, Gain (1 - max (reverbAmount st) 0))]"
    unfolding g closed using buf by simp
  show "connections g =
        [(SourceNode, FilterNode), (FilterNode, GainNode)]
        @ (if delayAmount st > 0 then delay_branch else [])
        @ (if reverbImpulseRef st \<noteq> None \<and> reverbAmount st > 0 then reverb_branch else [])
        @ [(GainNode, ContextDestination)]
        @ (if destinationNode props then [(GainNode, RecordingDestination)] else [])"
    unfolding g closed by simp
qed

section \<open>The track cap\<close>

lemma addTrack_le: "length (tracks st) \<le> 16 \<Longrightarrow> length (tracks (addTrack st now)) \<le> 16"
  by (simp add: addTrack_def)

lemma addTracks_le: "length (tracks st) \<le> 16 \<Longrightarrow> length (tracks (addTracks st nows)) \<le> 16"
  unfolding addTracks_def
  by (induction nows arbitrary: st) (simp_all add: addTrack_le)

section \<open>The claims\<close>

text \<open>
  C1, the reset of the loop region by a new clip. A successful decode sets the end of the
  region to the duration of the new clip and leaves the start of the region as it was.
  Take the scenario of the specification: a clip of 4 seconds is loaded and the region
  \<open>[1, 3]\<close> is selected; then a clip of 2 seconds is loaded, or comes out of a recording.
  The region afterwards is \<open>[1, 2]\<close>, not \<open>[0, 2]\<close>.
\<close>

theorem reload_keeps_loopStart:
  "region (reader_onload
      (handleLoopRegionChange \<lparr>audioContext = True, destinationNode = True\<rparr>
         (reader_onload (handleFileUpload \<lparr>audioContext = True, destinationNode = True\<rparr> initial_track (Some [1]))
            (Decoded \<lparr>duration = 4, channelData = []\<rparr>)) 1 3)
      (Decoded \<lparr>duration = 2, channelData = []\<rparr>)) = (1, 2) \<and>
   region (track_onstop
      ((handleLoopRegionChange \<lparr>audioContext = True, destinationNode = True\<rparr>
         (reader_onload (handleFileUpload \<lparr>audioContext = True, destinationNode = True\<rparr> initial_track (Some [1]))
            (Decoded \<lparr>duration = 4, channelData = []\<rparr>)) 1 3)
        \<lparr>track_recordedChunksRef := [[1]]\<rparr>)
      (Decoded \<lparr>duration = 2, channelData = []\<rparr>)) = (1, 2)"
  by (simp add: region_def reader_onload_def handleLoopRegionChange_def handleFileUpload_def
      track_onstop_def initial_track_def)

text \<open>
  C2, committing a loop region. The handler stores the two times as they are given:
  nothing is clamped and nothing is rejected. So the stored region lies within the clip,
  with its start before its end, exactly when the two times given do. A region that a
  drag on the waveform commits has its start before its end, by more than 0.01 seconds.
\<close>

theorem loop_region_stored_as_given:
  "region (handleLoopRegionChange props st start end) = (start, end) \<and>
   (valid_region clip (region (handleLoopRegionChange props st start end)) \<longleftrightarrow>
      0 \<le> start \<and> start < end \<and> end \<le> duration clip) \<and>
   (snd (wf_handleMouseUp s) = Some (a, b) \<longrightarrow> a + 0.01 < b) \<and>
   (snd (wf_handleTouchEnd s) = Some (a, b) \<longrightarrow> a + 0.01 < b)"
proof -
  have r: "region (handleLoopRegionChange props st start end) = (start, end)"
    by (simp add: region_def handleLoopRegionChange_def Let_def)
  have v: "valid_region clip (region (handleLoopRegionChange props st start end)) \<longleftrightarrow>
      0 \<le> start \<and> start < end \<and> end \<le> duration clip"
    by (simp add: r valid_region_def)
  have m: "snd (wf_handleMouseUp s) = Some (a, b) \<longrightarrow> a + 0.01 < b"
  proof
    assume "snd (wf_handleMouseUp s) = Some (a, b)"
    then obtain x y where "a = min x y" "b = max x y"
      "\<bar>double_round (x - y)\<bar> > commit_threshold"
      by (auto simp: wf_handleMouseUp_def Let_def split: option.splits if_splits)
    then show "a + 0.01 < b" using commit_gap [of x y] by blast
  qed
  have t: "snd (wf_handleTouchEnd s) = Some (a, b) \<longrightarrow> a + 0.01 < b"
  proof
    assume "snd (wf_handleTouchEnd s) = Some (a, b)"
    then obtain x y where "a = min x y" "b = max x y"
      "\<bar>double_round (x - y)\<bar> > commit_threshold"
      by (auto simp: wf_handleTouchEnd_def Let_def split: option.splits if_splits)
    then show "a + 0.01 < b" using commit_gap [of x y] by blast
  qed
  from r v m t show ?thesis by blast
qed

text \<open>The statement at a drag from 3 seconds back to 1 second.\<close>

theorem loop_region_stored_as_given_witness:
  "snd (wf_handleMouseUp \<lparr>wf_isDragging = True, dragStart = Some 3, dragEnd = Some 1, canvasWidth = 100\<rparr>)
     = Some (1, 3) \<and> (1::real) + 0.01 < 3"
proof -
  have "snd (wf_handleMouseUp \<lparr>wf_isDragging = True, dragStart = Some 3, dragEnd = Some 1, canvasWidth = 100\<rparr>)
     = Some (1, 3)"
    by (simp add: wf_handleMouseUp_def double_round_2 commit_threshold_value)
  with loop_region_stored_as_given
    [of _ _ _ _ _ "\<lparr>wf_isDragging = True, dragStart = Some 3, dragEnd = Some 1, canvasWidth = 100\<rparr>" 1 3]
  show ?thesis by blast
qed

text \<open>
  The region is not always within the clip: on a canvas 100 pixels wide showing a clip of
  4 seconds, a touch that starts at pixel 50 and moves on to pixel 150, beyond the right
  edge, commits the region \<open>[2, 6]\<close>, and the track stores it.
\<close>

theorem region_out_of_clip:
  "snd (wf_handleTouchEnd
     (wf_handleTouchMove (Some \<lparr>rect_left = 0\<rparr>) \<lparr>duration = 4, channelData = []\<rparr>
        (wf_handleTouchStart (Some \<lparr>rect_left = 0\<rparr>) \<lparr>duration = 4, channelData = []\<rparr>
           \<lparr>wf_isDragging = False, dragStart = None, dragEnd = None, canvasWidth = 100\<rparr>
           [\<lparr>clientX = 50, clientY = 0\<rparr>])
        [\<lparr>clientX = 150, clientY = 0\<rparr>])) = Some (2, 6) \<and>
   region (handleLoopRegionChange \<lparr>audioContext = True, destinationNode = True\<rparr>
      (initial_track\<lparr>audioBuffer := Some \<lparr>duration = 4, channelData = []\<rparr>, loopEnd := 4\<rparr>) 2 6)
     = (2, 6) \<and>
   \<not> valid_region \<lparr>duration = 4, channelData = []\<rparr> (2, 6)"
  by (simp add: wf_handleTouchEnd_def wf_handleTouchMove_def wf_handleTouchStart_def
      getPositionFromEvent_def region_def handleLoopRegionChange_def initial_track_def
      valid_region_def double_round_m4 commit_threshold_value)

text \<open>
  C3, the branches of a rebuilt graph. With both mixes at zero the connections are those
  of the dry path, source to filter to track gain to the outputs, and no convolver is
  created. The delay node and its gain node are created in every rebuild; they are
  connected when the delay mix is positive and touched by no connection otherwise. The
  convolver is created and the reverb branch connected when the reverb mix is positive
  and there is an impulse response; otherwise there is no convolver, and no connection
  touches the reverb gain node.
\<close>

theorem graph_branches:
  assumes "setupAudioNodes props st = Some g"
  shows "(delayAmount st = 0 \<and> reverbAmount st = 0 \<longrightarrow>
            connections g =
              [(SourceNode, FilterNode), (FilterNode, GainNode), (GainNode, ContextDestination)]
              @ (if destinationNode props then [(GainNode, RecordingDestination)] else []) \<and>
            ReverbNode \<notin> set (node_names g)) \<and>
         DelayNode \<in> set (node_names g) \<and> DelayGainNode \<in> set (node_names g) \<and>
         (if delayAmount st > 0
          then set delay_branch \<subseteq> set (connections g)
          else \<not> touched DelayNode g \<and> \<not> touched DelayGainNode g) \<and>
         (if reverbAmount st > 0 \<and> reverbImpulseRef st \<noteq> None
          then ReverbNode \<in> set (node_names g) \<and> set reverb_branch \<subseteq> set (connections g)
          else ReverbNode \<notin> set (node_names g) \<and>
               \<not> touched ReverbNode g \<and> \<not> touched ReverbGainNode g)"
proof -
  note shape = setupAudioNodes_shape [OF assms]
  have off: "delayAmount st = 0 \<and> reverbAmount st = 0 \<longrightarrow>
            connections g =
              [(SourceNode, FilterNode), (FilterNode, GainNode), (GainNode, ContextDestination)]
              @ (if destinationNode props then [(GainNode, RecordingDestination)] else []) \<and>
            ReverbNode \<notin> set (node_names g)"
    by (simp add: shape node_names_def)
  have created: "DelayNode \<in> set (node_names g)" "DelayGainNode \<in> set (node_names g)"
    by (simp_all add: shape node_names_def)
  have delay: "if delayAmount st > 0
          then set delay_branch \<subseteq> set (connections g)
          else \<not> touched DelayNode g \<and> \<not> touched DelayGainNode g"
    by (auto simp: shape touched_def delay_branch_def reverb_branch_def)
  have reverb: "if reverbAmount st > 0 \<and> reverbImpulseRef st \<noteq> None
          then ReverbNode \<in> set (node_names g) \<and> set reverb_branch \<subseteq> set (connections g)
          else ReverbNode \<notin> set (node_names g) \<and>
               \<not> touched ReverbNode g \<and> \<not> touched ReverbGainNode g"
    by (cases "delayAmount st > 0")
      (auto simp: shape touched_def node_names_def delay_branch_def reverb_branch_def)
  from off created delay reverb show ?thesis by blast
qed

text \<open>The statement at a track with a clip of 4 seconds and both mixes at zero.\<close>

theorem graph_branches_witness:
  "setupAudioNodes \<lparr>audioContext = True, destinationNode = True\<rparr>
      (initial_track\<lparr>audioBuffer := Some \<lparr>duration = 4, channelData = []\<rparr>\<rparr>) =
     Some \<lparr>nodes =
             [(SourceNode, BufferSource \<lparr>duration = 4, channelData = []\<rparr> True),
              (GainNode, Gain 1), (FilterNode, BiquadFilter ''lowpass'' 20000),
              (DelayNode, Delay 5 0), (DelayGainNode, Gain 0),
              (ReverbGainNode, Gain 0), (DryGainNode, Gain 1)],
           connections =
             [(SourceNode, FilterNode), (FilterNode, GainNode),
              (GainNode, ContextDestination), (GainNode, RecordingDestination)],
           src_loopStart = 0, src_loopEnd = 0, started = None\<rparr> \<and>
   \<not> touched DelayNode
       \<lparr>nodes =
             [(SourceNode, BufferSource \<lparr>duration = 4, channelData = []\<rparr> True),
              (GainNode, Gain 1), (FilterNode, BiquadFilter ''lowpass'' 20000),
              (DelayNode, Delay 5 0), (DelayGainNode, Gain 0),
              (ReverbGainNode, Gain 0), (DryGainNode, Gain 1)],
           connections =
             [(SourceNode, FilterNode), (FilterNode, GainNode),
              (GainNode, ContextDestination), (GainNode, RecordingDestination)],
           src_loopStart = 0, src_loopEnd = 0, started = None\<rparr>"
proof -
  let ?props = "\<lparr>audioContext = True, destinationNode = True\<rparr>"
  let ?st = "initial_track\<lparr>audioBuffer := Some \<lparr>duration = 4, channelData = []\<rparr>\<rparr>"
  let ?g = "\<lparr>nodes =
             [(SourceNode, BufferSource \<lparr>duration = 4, channelData = []\<rparr> True),
              (GainNode, Gain 1), (FilterNode, BiquadFilter ''lowpass'' 20000),
              (DelayNode, Delay 5 0), (DelayGainNode, Gain 0),
              (ReverbGainNode, Gain 0), (DryGainNode, Gain 1)],
           connections =
             [(SourceNode, FilterNode), (FilterNode, GainNode),
              (GainNode, ContextDestination), (GainNode, RecordingDestination)],
           src_loopStart = 0, src_loopEnd = 0, started = None\<rparr>"
  have built: "setupAudioNodes ?props ?st = Some ?g"
    by (simp add: setupAudioNodes_def initial_track_def create_def connect_def empty_graph_def
        Let_def)
  have off: "\<not> delayAmount ?st > 0" by (simp add: initial_track_def)
  from graph_branches [OF built] off have "\<not> touched DelayNode ?g" by simp
  with built show ?thesis by simp
qed

text \<open>With both mixes at zero the rebuild still creates a delay node.\<close>

theorem delay_node_created_when_off:
  "delayAmount (initial_track\<lparr>audioBuffer := Some \<lparr>duration = 4, channelData = []\<rparr>\<rparr>) = 0 \<and>
   reverbAmount (initial_track\<lparr>audioBuffer := Some \<lparr>duration = 4, channelData = []\<rparr>\<rparr>) = 0 \<and>
   map_option node_names
     (setupAudioNodes \<lparr>audioContext = True, destinationNode = True\<rparr>
        (initial_track\<lparr>audioBuffer := Some \<lparr>duration = 4, channelData = []\<rparr>\<rparr>)) =
     Some [SourceNode, GainNode, FilterNode, DelayNode, DelayGainNode, ReverbGainNode,
           DryGainNode] \<and>
   DelayNode \<in> set [SourceNode, GainNode, FilterNode, DelayNode, DelayGainNode, ReverbGainNode,
           DryGainNode]"
  by (simp add: setupAudioNodes_def initial_track_def create_def connect_def empty_graph_def
      node_names_def Let_def)




text \<open>
  C5, the value a move emits. During a drag, a mouse move emits the value of the
  specification for the vertical distance: the start value less the distance over 200
  times the range, clamped to the bounds, and rounded to a nearest multiple of the step
  unless the step is zero. A touch move emits that value for a delta that is the vertical
  distance or the inverted horizontal distance, whichever has the larger magnitude. With
  step 1 and the bounds 60 and 200, a move whose unrounded value is 137.6 emits 138.
\<close>

theorem knob_move_value:
  assumes "knob_min p \<le> knob_max p" and "knob_isDragging s"
  shows "(\<exists>m. knob_handleMouseMove p s eClientY = Some m \<and>
              spec_knob_value p (startValue s) (eClientY - startY s) m) \<and>
         (\<exists>m d. knob_handleTouchMove p s (touch # touches) = Some m \<and>
              d \<in> {clientY touch - startY s, - (clientX touch - startX s)} \<and>
              \<bar>d\<bar> = max \<bar>clientY touch - startY s\<bar> \<bar>clientX touch - startX s\<bar> \<and>
              spec_knob_value p (startValue s) d m) \<and>
         (knob_step p = 1 \<and> knob_min p = 60 \<and> knob_max p = 200 \<and>
          startValue s - (eClientY - startY s) / 200 * (knob_max p - knob_min p) = 137.6
            \<longrightarrow> knob_handleMouseMove p s eClientY = Some 138)"
proof (intro conjI impI)
  show "\<exists>m. knob_handleMouseMove p s eClientY = Some m \<and>
            spec_knob_value p (startValue s) (eClientY - startY s) m"
    using assms by (simp add: knob_handleMouseMove_def knob_newValue_spec)
next
  let ?dy = "clientY touch - startY s" and ?dx = "clientX touch - startX s"
  let ?d = "if \<bar>?dy\<bar> > \<bar>?dx\<bar> then ?dy else - ?dx"
  have "knob_handleTouchMove p s (touch # touches) = Some (knob_newValue p s ?d)"
    using assms(2) by (simp add: knob_handleTouchMove_def Let_def)
  moreover have "?d \<in> {?dy, - ?dx}" by simp
  moreover have "\<bar>?d\<bar> = max \<bar>?dy\<bar> \<bar>?dx\<bar>" by (simp add: max_def abs_minus_commute)
  moreover have "spec_knob_value p (startValue s) ?d (knob_newValue p s ?d)"
    by (rule knob_newValue_spec [OF assms(1)])
  ultimately show "\<exists>m d. knob_handleTouchMove p s (touch # touches) = Some m \<and>
      d \<in> {?dy, - ?dx} \<and> \<bar>d\<bar> = max \<bar>?dy\<bar> \<bar>?dx\<bar> \<and> spec_knob_value p (startValue s) d m"
    by blast
next
  assume h: "knob_step p = 1 \<and> knob_min p = 60 \<and> knob_max p = 200 \<and>
    startValue s - (eClientY - startY s) / 200 * (knob_max p - knob_min p) = 137.6"
  then have nz: "knob_step p \<noteq> 0" by simp
  from h have "startValue s - (eClientY - startY s) / 200 * (knob_max p - knob_min p) = 137.6"
    by (elim conjE)
  from knob_newValue_eq [OF nz this]
  have "knob_newValue p s (eClientY - startY s) =
      real_of_int (Math_round (max (knob_min p) (min (knob_max p) 137.6) / knob_step p)) * knob_step p" .
  also have "\<dots> = 138"
    using h by (simp add: Math_round_def)
  finally show "knob_handleMouseMove p s eClientY = Some 138"
    using assms(2) by (simp add: knob_handleMouseMove_def)
qed

text \<open>The statement at the tempo knob: from 120, a drag up that gives 137.6 emits 138.\<close>

theorem knob_move_value_witness:
  "knob_handleMouseMove \<lparr>knob_min = 60, knob_max = 200, knob_step = 1\<rparr>
      \<lparr>knob_isDragging = True, startY = 0, startX = 0, startValue = 120\<rparr> (- (176 / 7)) = Some 138"
proof -
  let ?p = "\<lparr>knob_min = 60, knob_max = 200, knob_step = 1\<rparr>"
  let ?s = "\<lparr>knob_isDragging = True, startY = 0, startX = 0, startValue = 120\<rparr>"
  have "knob_min ?p \<le> knob_max ?p" "knob_isDragging ?s" by simp_all
  from knob_move_value [OF this, of "- (176 / 7)"]
  show ?thesis by simp
qed

text \<open>
  C6, the threshold of a drag on the waveform. At the release of a drag from \<open>a\<close> to
  \<open>b\<close>, by mouse or by touch, take the distance as the handler computes it, the double
  nearest to the difference, and 0.01 as the double of that literal. If the distance is
  at most 0.01 the handler does not call \<open>onRegionChange\<close>; if it is more, the handler
  calls it with the smaller and the larger of the two. In exact terms: a drag over at
  most 0.01 seconds commits nothing, and a drag over at least the next double after the
  double 0.01 commits.
\<close>

theorem drag_commit_threshold:
  assumes "wf_isDragging s" and "dragStart s = Some a" and "dragEnd s = Some b"
  shows "(\<bar>double_round (b - a)\<bar> \<le> double_round 0.01 \<longrightarrow>
            snd (wf_handleMouseUp s) = None \<and> snd (wf_handleTouchEnd s) = None) \<and>
         (\<bar>double_round (b - a)\<bar> > double_round 0.01 \<longrightarrow>
            snd (wf_handleMouseUp s) = Some (min a b, max a b) \<and>
            snd (wf_handleTouchEnd s) = Some (min a b, max a b)) \<and>
         (\<bar>b - a\<bar> \<le> 0.01 \<longrightarrow>
            snd (wf_handleMouseUp s) = None \<and> snd (wf_handleTouchEnd s) = None) \<and>
         (\<bar>b - a\<bar> \<ge> double_round 0.01 + pow2 (- 59) \<longrightarrow>
            snd (wf_handleMouseUp s) = Some (min a b, max a b) \<and>
            snd (wf_handleTouchEnd s) = Some (min a b, max a b))"
proof -
  have sym: "\<bar>double_round (b - a)\<bar> = \<bar>double_round (a - b)\<bar>"
    using double_round_minus [of "a - b"] by simp
  have none: "snd (wf_handleMouseUp s) = None \<and> snd (wf_handleTouchEnd s) = None"
    if "\<bar>double_round (a - b)\<bar> \<le> commit_threshold"
    using that assms by (simp add: wf_handleMouseUp_def wf_handleTouchEnd_def Let_def)
  have some: "snd (wf_handleMouseUp s) = Some (min a b, max a b) \<and>
      snd (wf_handleTouchEnd s) = Some (min a b, max a b)"
    if "\<bar>double_round (a - b)\<bar> > commit_threshold"
    using that assms by (simp add: wf_handleMouseUp_def wf_handleTouchEnd_def Let_def)
  have below: "\<bar>double_round (a - b)\<bar> \<le> commit_threshold" if "\<bar>b - a\<bar> \<le> 0.01"
    using that exact_below_threshold [of a b] by (simp add: abs_minus_commute)
  have above: "\<bar>double_round (a - b)\<bar> > commit_threshold"
    if "\<bar>b - a\<bar> \<ge> double_round 0.01 + pow2 (- 59)"
    using that exact_above_threshold [of a b]
    by (simp add: abs_minus_commute commit_threshold_def)
  from none some below above show ?thesis
    unfolding sym commit_threshold_def [symmetric] by blast
qed

text \<open>
  The statement at the distances 0, 0.01 and 0.011 from 0, and at the drag from 1 to
  1.01, whose computed distance is a little more than 0.01.
\<close>

theorem drag_commit_threshold_witness:
  "snd (wf_handleMouseUp \<lparr>wf_isDragging = True, dragStart = Some 1, dragEnd = Some 1,
      canvasWidth = 100\<rparr>) = None \<and>
   snd (wf_handleMouseUp \<lparr>wf_isDragging = True, dragStart = Some 0,
      dragEnd = Some (double_round 0.01), canvasWidth = 100\<rparr>) = None \<and>
   snd (wf_handleTouchEnd \<lparr>wf_isDragging = True, dragStart = Some 0,
      dragEnd = Some (double_round 0.01), canvasWidth = 100\<rparr>) = None \<and>
   snd (wf_handleMouseUp \<lparr>wf_isDragging = True, dragStart = Some (double_round 0.011),
      dragEnd = Some 0, canvasWidth = 100\<rparr>) = Some (0, double_round 0.011) \<and>
   snd (wf_handleTouchEnd \<lparr>wf_isDragging = True, dragStart = Some (double_round 0.011),
      dragEnd = Some 0, canvasWidth = 100\<rparr>) = Some (0, double_round 0.011) \<and>
   snd (wf_handleMouseUp \<lparr>wf_isDragging = True, dragStart = Some 1,
      dragEnd = Some (double_round 1.01), canvasWidth = 100\<rparr>) = Some (1, double_round 1.01)"
proof -
  let ?s0 = "\<lparr>wf_isDragging = True, dragStart = Some 1, dragEnd = Some 1, canvasWidth = 100\<rparr>"
  let ?s1 = "\<lparr>wf_isDragging = True, dragStart = Some 0, dragEnd = Some (double_round 0.01),
      canvasWidth = 100\<rparr>"
  let ?s2 = "\<lparr>wf_isDragging = True, dragStart = Some (double_round 0.011), dragEnd = Some 0,
      canvasWidth = 100\<rparr>"
  let ?s3 = "\<lparr>wf_isDragging = True, dragStart = Some 1, dragEnd = Some (double_round 1.01),
      canvasWidth = 100\<rparr>"
  have d0: "\<bar>double_round (1 - 1)\<bar> \<le> double_round 0.01" by code_simp
  have d1: "\<bar>double_round (double_round 0.01 - 0)\<bar> \<le> double_round 0.01" by code_simp
  have d2: "\<bar>double_round (0 - double_round 0.011)\<bar> > double_round 0.01" by code_simp
  have d3: "\<bar>double_round (double_round 1.01 - 1)\<bar> > double_round 0.01" by code_simp
  have o2: "min (double_round 0.011) 0 = 0 \<and> max (double_round 0.011) 0 = double_round 0.011"
    by code_simp
  have o3: "min 1 (double_round 1.01) = 1 \<and> max 1 (double_round 1.01) = double_round 1.01"
    by code_simp
  have "wf_isDragging ?s0" "dragStart ?s0 = Some 1" "dragEnd ?s0 = Some 1" by simp_all
  from drag_commit_threshold [OF this] d0
  have r0: "snd (wf_handleMouseUp ?s0) = None" by blast
  have "wf_isDragging ?s1" "dragStart ?s1 = Some 0" "dragEnd ?s1 = Some (double_round 0.01)"
    by simp_all
  from drag_commit_threshold [OF this] d1
  have r1: "snd (wf_handleMouseUp ?s1) = None \<and> snd (wf_handleTouchEnd ?s1) = None" by blast
  have "wf_isDragging ?s2" "dragStart ?s2 = Some (double_round 0.011)" "dragEnd ?s2 = Some 0"
    by simp_all
  from drag_commit_threshold [OF this] d2
  have "snd (wf_handleMouseUp ?s2) = Some (min (double_round 0.011) 0, max (double_round 0.011) 0) \<and>
        snd (wf_handleTouchEnd ?s2) = Some (min (double_round 0.011) 0, max (double_round 0.011) 0)"
    by blast
  then have r2: "snd (wf_handleMouseUp ?s2) = Some (0, double_round 0.011) \<and>
        snd (wf_handleTouchEnd ?s2) = Some (0, double_round 0.011)"
    by (simp only: o2)
  have "wf_isDragging ?s3" "dragStart ?s3 = Some 1" "dragEnd ?s3 = Some (double_round 1.01)"
    by simp_all
  from drag_commit_threshold [OF this] d3
  have "snd (wf_handleMouseUp ?s3) = Some (min 1 (double_round 1.01), max 1 (double_round 1.01))"
    by blast
  then have r3: "snd (wf_handleMouseUp ?s3) = Some (1, double_round 1.01)"
    by (simp only: o3)
  from r0 r1 r2 r3 show ?thesis by blast
qed

text \<open>
  C7, a decode that fails. The clip of the track, possibly none, and its loop region are
  as before, the loading flag is cleared and the console holds one more error; apart from
  the flag and the console the state of the track is the state before.
\<close>

theorem decode_failure_keeps_state:
  "audioBuffer (reader_onload st DecodeError) = audioBuffer st \<and>
   region (reader_onload st DecodeError) = region st \<and>
   \<not> isLoading (reader_onload st DecodeError) \<and>
   track_console (reader_onload st DecodeError) =
     track_console st @ [Error ''Error decoding audio data:''] \<and>
   (reader_onload st DecodeError)\<lparr>isLoading := isLoading st, track_console := track_console st\<rparr> = st"
  by (simp add: reader_onload_def region_def)

text \<open>
  C8, the guards of the master recording. While a recording runs, \<open>startMasterRecording\<close>
  changes nothing. When the recorder stops with no chunk captured, no blob is made and
  the state changes by one warning on the console only. In particular a recording that
  is started and then stopped, all of whose data events are empty, ends with no recorded
  blob and that one warning.
\<close>

theorem master_recording_guards:
  "(isRecording st \<longrightarrow> startMasterRecording st outcome = st) \<and>
   (recordedChunksRef st = [] \<longrightarrow>
      recordedBlob (onstop st) = recordedBlob st \<and>
      console (onstop st) = console st @ [Warn ''No data recorded''] \<and>
      (onstop st)\<lparr>console := console st\<rparr> = st) \<and>
   (audioContextRef st \<noteq> None \<and> destinationRef st \<and> \<not> isRecording st \<and>
    (\<forall>e \<in> set evs. length e = 0) \<and> (\<forall>e \<in> set evs'. length e = 0) \<longrightarrow>
      recordedBlob (onstop (foldl ondataavailable
         (stopMasterRecording (foldl ondataavailable (startMasterRecording st RecorderStarted) evs)
            False) evs')) = None \<and>
      console (onstop (foldl ondataavailable
         (stopMasterRecording (foldl ondataavailable (startMasterRecording st RecorderStarted) evs)
            False) evs')) = console st @ [Warn ''No data recorded''])"
proof -
  have empty_events: "foldl ondataavailable s es = s" if "\<forall>e \<in> set es. length e = 0" for s es
    using that by (induction es arbitrary: s) (simp_all add: ondataavailable_def)
  have a: "isRecording st \<longrightarrow> startMasterRecording st outcome = st"
    by (simp add: startMasterRecording_def)
  have b: "recordedChunksRef st = [] \<longrightarrow>
      recordedBlob (onstop st) = recordedBlob st \<and>
      console (onstop st) = console st @ [Warn ''No data recorded''] \<and>
      (onstop st)\<lparr>console := console st\<rparr> = st"
    by (simp add: onstop_def)
  have c: "recordedBlob (onstop (foldl ondataavailable
         (stopMasterRecording (foldl ondataavailable (startMasterRecording st RecorderStarted) evs)
            False) evs')) = None \<and>
      console (onstop (foldl ondataavailable
         (stopMasterRecording (foldl ondataavailable (startMasterRecording st RecorderStarted) evs)
            False) evs')) = console st @ [Warn ''No data recorded'']"
    if "audioContextRef st \<noteq> None" "destinationRef st" "\<not> isRecording st"
      "\<forall>e \<in> set evs. length e = 0" "\<forall>e \<in> set evs'. length e = 0"
    using that
    by (simp add: empty_events)
      (auto simp: startMasterRecording_def stopMasterRecording_def onstop_def Let_def)
  from a b c show ?thesis by blast
qed

text \<open>The statement at a session whose context and recording bus exist.\<close>

theorem master_recording_guards_witness:
  "isRecording (startMasterRecording
      (initial_looper\<lparr>audioContextRef := Some Suspended, destinationRef := True\<rparr>) RecorderStarted) \<and>
   startMasterRecording (startMasterRecording
      (initial_looper\<lparr>audioContextRef := Some Suspended, destinationRef := True\<rparr>) RecorderStarted)
      RecorderStarted =
     startMasterRecording
      (initial_looper\<lparr>audioContextRef := Some Suspended, destinationRef := True\<rparr>) RecorderStarted \<and>
   recordedBlob (onstop (foldl ondataavailable
      (stopMasterRecording (foldl ondataavailable
         (startMasterRecording
            (initial_looper\<lparr>audioContextRef := Some Suspended, destinationRef := True\<rparr>)
            RecorderStarted) [[]]) False) [[]])) = None \<and>
   console (onstop (foldl ondataavailable
      (stopMasterRecording (foldl ondataavailable
         (startMasterRecording
            (initial_looper\<lparr>audioContextRef := Some Suspended, destinationRef := True\<rparr>)
            RecorderStarted) [[]]) False) [[]])) = [Warn ''No data recorded'']"
proof -
  let ?st = "initial_looper\<lparr>audioContextRef := Some Suspended, destinationRef := True\<rparr>"
  let ?rec = "startMasterRecording ?st RecorderStarted"
  have rec: "isRecording ?rec"
    by (simp add: startMasterRecording_def initial_looper_def)
  have st: "audioContextRef ?st \<noteq> None \<and> destinationRef ?st \<and> \<not> isRecording ?st \<and>
    (\<forall>e \<in> set [[]::nat list]. length e = 0) \<and> (\<forall>e \<in> set [[]::nat list]. length e = 0)"
    by (simp add: initial_looper_def)
  have c: "console ?st = []" by (simp add: initial_looper_def)
  from master_recording_guards [of ?rec RecorderStarted "[[]]" "[[]]"] rec
  have 1: "startMasterRecording ?rec RecorderStarted = ?rec" by blast
  from master_recording_guards [of ?st RecorderStarted "[[]]" "[[]]"] st
  have 2: "recordedBlob (onstop (foldl ondataavailable
         (stopMasterRecording (foldl ondataavailable ?rec [[]]) False) [[]])) = None \<and>
      console (onstop (foldl ondataavailable
         (stopMasterRecording (foldl ondataavailable ?rec [[]]) False) [[]]))
        = console ?st @ [Warn ''No data recorded'']" by blast
  from rec 1 2 c show ?thesis by simp
qed

text \<open>
  C9, the cap of 16 tracks. With fewer than 16 tracks an add request appends one track,
  and only then does the number of tracks grow; with 16 tracks it leaves the session as
  it is. So no run of add requests takes the number of tracks beyond 16, from the initial
  session in particular.
\<close>

theorem track_cap:
  "(length (tracks st) < 16 \<longrightarrow>
      tracks (addTrack st now) = tracks st @ [\<lparr>track_id = now, track_audioBuffer = None\<rparr>]) \<and>
   (length (tracks (addTrack st now)) = Suc (length (tracks st)) \<longrightarrow> length (tracks st) < 16) \<and>
   (length (tracks st) = 16 \<longrightarrow> addTrack st now = st) \<and>
   (length (tracks st) \<le> 16 \<longrightarrow> length (tracks (addTracks st nows)) \<le> 16) \<and>
   length (tracks (addTracks initial_looper nows)) \<le> 16"
proof -
  have "length (tracks initial_looper) \<le> 16" by (simp add: initial_looper_def)
  from addTracks_le [OF this] have "length (tracks (addTracks initial_looper nows)) \<le> 16" .
  moreover have "length (tracks (addTrack st now)) = Suc (length (tracks st)) \<longrightarrow> length (tracks st) < 16"
    by (simp add: addTrack_def)
  ultimately show ?thesis
    by (simp add: addTrack_def addTracks_le)
qed

text \<open>The statement at the initial session, and at a session filled to 16 tracks.\<close>

theorem track_cap_witness:
  "tracks (addTrack initial_looper 1700000000000) =
     [\<lparr>track_id = 1, track_audioBuffer = None\<rparr>,
      \<lparr>track_id = 1700000000000, track_audioBuffer = None\<rparr>] \<and>
   length (tracks (addTracks initial_looper [2, 3, 4, 5, 6, 7, 8, 9, 10, 11, 12, 13, 14, 15, 16])) = 16 \<and>
   addTrack (addTracks initial_looper [2, 3, 4, 5, 6, 7, 8, 9, 10, 11, 12, 13, 14, 15, 16]) 17 =
     addTracks initial_looper [2, 3, 4, 5, 6, 7, 8, 9, 10, 11, 12, 13, 14, 15, 16] \<and>
   length (tracks (addTracks initial_looper
     [2, 3, 4, 5, 6, 7, 8, 9, 10, 11, 12, 13, 14, 15, 16, 17, 18])) \<le> 16"
proof -
  let ?full = "addTracks initial_looper [2, 3, 4, 5, 6, 7, 8, 9, 10, 11, 12, 13, 14, 15, 16]"
  have one: "length (tracks initial_looper) < 16" by (simp add: initial_looper_def)
  have full: "length (tracks ?full) = 16"
    by (simp add: addTracks_def addTrack_def initial_looper_def)
  from track_cap [of initial_looper 1700000000000] one
  have 1: "tracks (addTrack initial_looper 1700000000000) =
     tracks initial_looper @ [\<lparr>track_id = 1700000000000, track_audioBuffer = None\<rparr>]" by blast
  from track_cap [of ?full 17] full
  have 2: "addTrack ?full 17 = ?full" by blast
  from track_cap [of initial_looper 0 "[2, 3, 4, 5, 6, 7, 8, 9, 10, 11, 12, 13, 14, 15, 16, 17, 18]"]
  have 3: "length (tracks (addTracks initial_looper
     [2, 3, 4, 5, 6, 7, 8, 9, 10, 11, 12, 13, 14, 15, 16, 17, 18])) \<le> 16" by blast
  from 1 have "tracks (addTrack initial_looper 1700000000000) =
     [\<lparr>track_id = 1, track_audioBuffer = None\<rparr>,
      \<lparr>track_id = 1700000000000, track_audioBuffer = None\<rparr>]"
    by (simp add: initial_looper_def)
  with full 2 3 show ?thesis by blast
qed

text \<open>
  C10, the dry gain node. In every rebuilt graph the filter is connected to the track
  gain directly and the track gain is 1; the node with the gain \<open>1 - max(reverbMix, 0)\<close>
  is created and touched by no connection. The dry path, its nodes with their settings
  and its connections, is the same whatever the reverb and delay mixes are.
\<close>

theorem dry_gain_never_connected:
  assumes "setupAudioNodes props st = Some g"
  shows "(FilterNode, GainNode) \<in> set (connections g) \<and>
         (GainNode, Gain 1) \<in> set (nodes g) \<and>
         (DryGainNode, Gain (1 - max (reverbAmount st) 0)) \<in> set (nodes g) \<and>
         \<not> touched DryGainNode g \<and>
         map_option dry_path (setupAudioNodes props (st\<lparr>reverbAmount := r, delayAmount := d\<rparr>))
           = Some (dry_path g)"
proof -
  note shape = setupAudioNodes_shape [OF assms]
  from setupAudioNodes_SomeD [OF assms] obtain buf
    where buf: "audioBuffer st = Some buf" and ctx: "audioContext props" by blast
  let ?st' = "st\<lparr>reverbAmount := r, delayAmount := d\<rparr>"
  have "audioBuffer ?st' = Some buf" using buf by simp
  from setupAudioNodes_closed [OF this ctx] obtain g'
    where g': "setupAudioNodes props ?st' = Some g'" by blast
  note shape' = setupAudioNodes_shape [OF g']
  have "dry_path g' = dry_path g"
    by (simp add: dry_path_def dry_names_def shape shape' delay_branch_def reverb_branch_def)
  moreover have "(FilterNode, GainNode) \<in> set (connections g)"
    by (simp add: shape)
  moreover have "(GainNode, Gain 1) \<in> set (nodes g)"
    by (simp add: shape)
  moreover have "(DryGainNode, Gain (1 - max (reverbAmount st) 0)) \<in> set (nodes g)"
    by (simp add: shape)
  moreover have "\<not> touched DryGainNode g"
    by (auto simp: shape touched_def delay_branch_def reverb_branch_def)
  ultimately show ?thesis using g' by simp
qed

text \<open>The statement at a track with both effects on, against the same track with both off.\<close>

theorem dry_gain_never_connected_witness:
  "setupAudioNodes \<lparr>audioContext = True, destinationNode = False\<rparr>
      (initial_track\<lparr>audioBuffer := Some \<lparr>duration = 4, channelData = []\<rparr>,
         reverbAmount := 0.5, delayAmount := 0.25,
         reverbImpulseRef := Some \<lparr>duration = 2, channelData = []\<rparr>\<rparr>) =
     Some \<lparr>nodes =
             [(SourceNode, BufferSource \<lparr>duration = 4, channelData = []\<rparr> True),
              (GainNode, Gain 1), (FilterNode, BiquadFilter ''lowpass'' 20000),
              (DelayNode, Delay 5 0.25), (DelayGainNode, Gain 0.5),
              (ReverbNode, Convolver \<lparr>duration = 2, channelData = []\<rparr>),
              (ReverbGainNode, Gain 0.5), (DryGainNode, Gain 0.5)],
           connections =
             [(SourceNode, FilterNode), (FilterNode, GainNode),
              (FilterNode, DelayNode), (DelayNode, DelayGainNode), (DelayGainNode, GainNode),
              (FilterNode, ReverbNode), (ReverbNode, ReverbGainNode), (ReverbGainNode, GainNode),
              (GainNode, ContextDestination)],
           src_loopStart = 0, src_loopEnd = 0, started = None\<rparr> \<and>
   \<not> touched DryGainNode
       \<lparr>nodes =
             [(SourceNode, BufferSource \<lparr>duration = 4, channelData = []\<rparr> True),
              (GainNode, Gain 1), (FilterNode, BiquadFilter ''lowpass'' 20000),
              (DelayNode, Delay 5 0.25), (DelayGainNode, Gain 0.5),
              (ReverbNode, Convolver \<lparr>duration = 2, channelData = []\<rparr>),
              (ReverbGainNode, Gain 0.5), (DryGainNode, Gain 0.5)],
           connections =
             [(SourceNode, FilterNode), (FilterNode, GainNode),
              (FilterNode, DelayNode), (DelayNode, DelayGainNode), (DelayGainNode, GainNode),
              (FilterNode, ReverbNode), (ReverbNode, ReverbGainNode), (ReverbGainNode, GainNode),
              (GainNode, ContextDestination)],
           src_loopStart = 0, src_loopEnd = 0, started = None\<rparr> \<and>
   map_option dry_path
     (setupAudioNodes \<lparr>audioContext = True, destinationNode = False\<rparr>
        (initial_track\<lparr>audioBuffer := Some \<lparr>duration = 4, channelData = []\<rparr>,
           reverbAmount := 0, delayAmount := 0,
           reverbImpulseRef := Some \<lparr>duration = 2, channelData = []\<rparr>\<rparr>)) =
     Some ([(SourceNode, BufferSource \<lparr>duration = 4, channelData = []\<rparr> True),
            (GainNode, Gain 1), (FilterNode, BiquadFilter ''lowpass'' 20000)],
           [(SourceNode, FilterNode), (FilterNode, GainNode), (GainNode, ContextDestination)])"
proof -
  let ?props = "\<lparr>audioContext = True, destinationNode = False\<rparr>"
  let ?st = "initial_track\<lparr>audioBuffer := Some \<lparr>duration = 4, channelData = []\<rparr>,
         reverbAmount := 0.5, delayAmount := 0.25,
         reverbImpulseRef := Some \<lparr>duration = 2, channelData = []\<rparr>\<rparr>"
  let ?g = "\<lparr>nodes =
             [(SourceNode, BufferSource \<lparr>duration = 4, channelData = []\<rparr> True),
              (GainNode, Gain 1), (FilterNode, BiquadFilter ''lowpass'' 20000),
              (DelayNode, Delay 5 0.25), (DelayGainNode, Gain 0.5),
              (ReverbNode, Convolver \<lparr>duration = 2, channelData = []\<rparr>),
              (ReverbGainNode, Gain 0.5), (DryGainNode, Gain 0.5)],
           connections =
             [(SourceNode, FilterNode), (FilterNode, GainNode),
              (FilterNode, DelayNode), (DelayNode, DelayGainNode), (DelayGainNode, GainNode),
              (FilterNode, ReverbNode), (ReverbNode, ReverbGainNode), (ReverbGainNode, GainNode),
              (GainNode, ContextDestination)],
           src_loopStart = 0, src_loopEnd = 0, started = None\<rparr>"
  have built: "setupAudioNodes ?props ?st = Some ?g"
    by (simp add: setupAudioNodes_def initial_track_def create_def connect_def empty_graph_def
        Let_def)
  have dry: "dry_path ?g =
      ([(SourceNode, BufferSource \<lparr>duration = 4, channelData = []\<rparr> True),
        (GainNode, Gain 1), (FilterNode, BiquadFilter ''lowpass'' 20000)],
       [(SourceNode, FilterNode), (FilterNode, GainNode), (GainNode, ContextDestination)])"
    by (simp add: dry_path_def dry_names_def)
  have upd: "?st\<lparr>reverbAmount := 0, delayAmount := 0\<rparr> =
      initial_track\<lparr>audioBuffer := Some \<lparr>duration = 4, channelData = []\<rparr>,
           reverbAmount := 0, delayAmount := 0,
           reverbImpulseRef := Some \<lparr>duration = 2, channelData = []\<rparr>\<rparr>"
    by (simp add: initial_track_def)
  from dry_gain_never_connected [OF built, of 0 0]
  have "\<not> touched DryGainNode ?g \<and>
    map_option dry_path (setupAudioNodes ?props (?st\<lparr>reverbAmount := 0, delayAmount := 0\<rparr>))
      = Some (dry_path ?g)" by blast
  with built show ?thesis unfolding upd dry by blast
qed

end
